theory Spec2Isabelle
  imports Complex_Main "HOL-Library.Word"
begin

section \<open>Depth conversion to floating point (Depth/depth\_convert2.cpp)\<close>

text \<open>
  A shallow embedding of \<^verbatim>\<open>src/Depth/depth_convert2.cpp\<close>: the kernel selector
  \<^verbatim>\<open>select_depth_convert_func\<close>, the three elementwise kernels, the filter class
  \<^verbatim>\<open>ConvertToFloat\<close> (constructor, \<^verbatim>\<open>get_flags\<close>, \<^verbatim>\<open>get_image_attributes\<close>,
  \<^verbatim>\<open>get_tmp_size\<close>, \<^verbatim>\<open>process\<close>) and the factory \<^verbatim>\<open>create_convert_to_float\<close>.

  \<^item> \<^verbatim>\<open>unsigned\<close> is \<open>32 word\<close>, \<^verbatim>\<open>size_t\<close> is \<open>64 word\<close>; arithmetic on them wraps.
  \<^item> A thrown \<^verbatim>\<open>error::InternalError\<close> is the \<open>Inl\<close> of a sum; so is every undefined
    behaviour the C++ can run into (a call through a null function pointer, an access
    outside a row, a division by zero).
  \<^item> \<^verbatim>\<open>float\<close> and \<^verbatim>\<open>double\<close> are type parameters \<open>'f\<close> and \<open>'d\<close>; their
    arithmetic, the half-precision primitives, \<^verbatim>\<open>ALIGNMENT\<close>, \<^verbatim>\<open>integer_range\<close>,
    \<^verbatim>\<open>integer_offset\<close> and \<^verbatim>\<open>operator==\<close> on pixel formats are declared in headers
    outside this file and are taken as parameters (the record \<open>externals\<close>).
\<close>

subsection \<open>Pixel formats (Common/pixel.h)\<close>

datatype PixelType = BYTE | WORD | HALF | FLOAT

text \<open>
  Modelled from the spec: \<^verbatim>\<open>struct PixelFormat\<close> is declared in Common/pixel.h. The spec
  (section 3) gives its content: the storage kind, the bit depth, the full/limited range
  flag and the chroma flag; the source reads the fields \<^verbatim>\<open>type\<close>, \<^verbatim>\<open>depth\<close>,
  \<^verbatim>\<open>fullrange\<close>, \<^verbatim>\<open>chroma\<close> and compares two formats with \<^verbatim>\<open>==\<close>.
\<close>

record PixelFormat =
  type :: PixelType
  depth :: int
  fullrange :: bool
  chroma :: bool

text \<open>
  Modelled from the spec: \<^verbatim>\<open>pixel_size\<close> is declared in Common/pixel.h. The spec names the
  four storage kinds as 8-bit integer, 16-bit integer, 16-bit half-float and 32-bit float,
  and \<^verbatim>\<open>pixel_size\<close> is the pixel's size in bytes.
\<close>

fun pixel_size :: "PixelType \<Rightarrow> nat" where
  "pixel_size BYTE = 1"
| "pixel_size WORD = 2"
| "pixel_size HALF = 2"
| "pixel_size FLOAT = 4"

subsection \<open>Errors and undefined behaviour\<close>

datatype error = InternalError string

datatype fault =
    NullCall        \<comment> \<open>a call through a null function pointer\<close>
  | DivideByZero    \<comment> \<open>\<^verbatim>\<open>x % 0\<close>\<close>
  | BadCast         \<comment> \<open>a row read or written at an element type it does not hold\<close>
  | Misaligned      \<comment> \<open>a pointer that is not a multiple of its element size\<close>
  | OutOfRange      \<comment> \<open>an access outside the row\<close>

subsection \<open>External collaborators\<close>

text \<open>
  What the file uses and does not define. \<open>ALIGNMENT\<close> is the constant of Common/align.h;
  \<open>format_eq\<close> is \<^verbatim>\<open>operator==\<close> on \<^verbatim>\<open>PixelFormat\<close> (Common/pixel.h);
  \<open>integer_range\<close> and \<open>integer_offset\<close> are the functions of quantize.h (returning
  \<^verbatim>\<open>int32_t\<close>); \<open>half_to_float\<close> and \<open>float_to_half\<close> are the half-precision
  primitives. The remaining fields are the floating-point operations the source applies:
  \<open>double_of_int32 x\<close> is the conversion of an \<^verbatim>\<open>int32_t\<close> to \<^verbatim>\<open>double\<close>,
  \<open>double_one\<close> the literal \<^verbatim>\<open>1.0\<close>, \<open>float_of_double\<close> is
  \<^verbatim>\<open>static_cast<float>\<close> of a double, \<open>float_of_uint n\<close> is \<^verbatim>\<open>static_cast<float>\<close>
  of an unsigned 8- or 16-bit sample with value \<open>n\<close>.
\<close>

record ('d, 'f) externals =
  ALIGNMENT :: nat
  format_eq :: "PixelFormat \<Rightarrow> PixelFormat \<Rightarrow> bool"
  integer_range :: "int \<Rightarrow> bool \<Rightarrow> bool \<Rightarrow> 32 word"
  integer_offset :: "int \<Rightarrow> bool \<Rightarrow> bool \<Rightarrow> 32 word"
  half_to_float :: "16 word \<Rightarrow> 'f"
  float_to_half :: "'f \<Rightarrow> 16 word"
  double_of_int32 :: "32 word \<Rightarrow> 'd"
  double_one :: 'd
  double_div :: "'d \<Rightarrow> 'd \<Rightarrow> 'd"
  double_mul :: "'d \<Rightarrow> 'd \<Rightarrow> 'd"
  float_of_double :: "'d \<Rightarrow> 'f"
  float_of_uint :: "nat \<Rightarrow> 'f"
  float_mul :: "'f \<Rightarrow> 'f \<Rightarrow> 'f"
  float_add :: "'f \<Rightarrow> 'f \<Rightarrow> 'f"

text \<open>
  Modelled from the spec: \<^verbatim>\<open>operator==\<close> is declared in Common/pixel.h, and the spec does
  not define it. The spec (section 4.3) states that construction-time validation leaves
  every filter at least one kernel, and that a half-float kernel is accepted only when
  exactly one of the two formats is half-float. With the guards of the constructor, both
  need two formats of the same floating type (\<^verbatim>\<open>HALF\<close> or \<^verbatim>\<open>FLOAT\<close>) to compare equal,
  whatever their other fields. The properties of validation are stated under this
  assumption on \<open>format_eq\<close>.
\<close>

definition floats_equal_by_type :: "('d, 'f) externals \<Rightarrow> bool" where
  "floats_equal_by_type E \<longleftrightarrow>
     (\<forall>a b. type a = type b \<and> (type a = HALF \<or> type a = FLOAT) \<longrightarrow> format_eq E a b)"

text \<open>
  Modelled from the spec: \<^verbatim>\<open>mod\<close> and \<^verbatim>\<open>align\<close> are templates of Common/align.h.
  The spec (section 6): \<^verbatim>\<open>mod(x, n)\<close> rounds \<open>x\<close> down to the nearest multiple of
  \<open>n\<close>, \<^verbatim>\<open>align(x, n)\<close> rounds \<open>x\<close> up to the nearest multiple of \<open>n\<close>. Both are
  called at \<^verbatim>\<open>unsigned\<close>; a caller checks \<open>n \<noteq> 0\<close> first.
\<close>

definition mod_unsigned :: "32 word \<Rightarrow> 32 word \<Rightarrow> 32 word" where
  "mod_unsigned x n = x - x mod n"

definition align_unsigned :: "32 word \<Rightarrow> 32 word \<Rightarrow> 32 word" where
  "align_unsigned x n = (if x mod n \<noteq> 0 then x + n - x mod n else x)"

subsection \<open>Rows of pixels and pointers into them\<close>

text \<open>
  A row of an image buffer is an array of one element type: \<^verbatim>\<open>uint8_t\<close>,
  \<^verbatim>\<open>uint16_t\<close> (16-bit integers and half-floats) or \<^verbatim>\<open>float\<close>. A pointer is a row and a
  byte offset from its start (the source does its pointer arithmetic on \<^verbatim>\<open>char *\<close>).
  Source and destination are separate rows: a call where they alias is not modelled.
\<close>

datatype 'f line = ByteLine "8 word list" | WordLine "16 word list" | FloatLine "'f list"

record 'f pointer =
  target :: "'f line"
  byte_off :: nat

definition ptr_add :: "'f pointer \<Rightarrow> nat \<Rightarrow> 'f pointer" where
  "ptr_add p n = p\<lparr>byte_off := byte_off p + n\<rparr>"

text \<open>
  \<^verbatim>\<open>reinterpret_cast<T *>(p)\<close>: the row as an array of \<open>T\<close> and the index of the element
  the pointer stands at. The cast is a fault when the row holds another element type or
  the pointer is not a multiple of \<^verbatim>\<open>sizeof(T)\<close>.
\<close>

definition as_uint8 :: "'f pointer \<Rightarrow> fault + 8 word list \<times> nat" where
  "as_uint8 p = (case target p of ByteLine xs \<Rightarrow> Inr (xs, byte_off p) | _ \<Rightarrow> Inl BadCast)"

definition as_uint16 :: "'f pointer \<Rightarrow> fault + 16 word list \<times> nat" where
  "as_uint16 p =
     (case target p of
        WordLine xs \<Rightarrow> if byte_off p mod 2 = 0 then Inr (xs, byte_off p div 2) else Inl Misaligned
      | _ \<Rightarrow> Inl BadCast)"

definition as_float :: "'f pointer \<Rightarrow> fault + 'f list \<times> nat" where
  "as_float p =
     (case target p of
        FloatLine xs \<Rightarrow> if byte_off p mod 4 = 0 then Inr (xs, byte_off p div 4) else Inl Misaligned
      | _ \<Rightarrow> Inl BadCast)"

subsection \<open>The elementwise kernels\<close>

text \<open>
  \<^verbatim>\<open>std::transform(first, last, d_first, op)\<close> on arrays: \<open>first\<close>, \<open>finish\<close>
  (the iterator \<^verbatim>\<open>last\<close>) and \<open>d_first\<close> are indices into \<open>xs\<close> and \<open>ys\<close>. The loop
  runs while \<open>first \<noteq> finish\<close>;
  it stops with a fault at the first access outside a row.
\<close>

function transform :: "('a \<Rightarrow> 'b) \<Rightarrow> 'a list \<Rightarrow> nat \<Rightarrow> nat \<Rightarrow> 'b list \<Rightarrow> nat \<Rightarrow> fault + 'b list" where
  "transform op xs first finish ys d_first =
     (if first = finish then Inr ys
      else if first < length xs \<and> d_first < length ys
        then transform op xs (Suc first) finish (ys[d_first := op (xs ! first)]) (Suc d_first)
      else Inl OutOfRange)"
  by pat_completeness auto
termination
  by (relation "measure (\<lambda>(op, xs, first, finish, ys, d_first). length xs - first)") auto

declare transform.simps [simp del]

text \<open>
  The body the three kernels share: cast the source pointer to \<open>S *\<close> and the destination
  pointer to \<open>D *\<close>, then \<^verbatim>\<open>std::transform(src_p + left, src_p + right, dst_p + left, op)\<close>.
  The result is the destination row after the call.
\<close>

definition transform_rows ::
  "('f pointer \<Rightarrow> fault + 'a list \<times> nat) \<Rightarrow> ('f pointer \<Rightarrow> fault + 'b list \<times> nat) \<Rightarrow> ('b list \<Rightarrow> 'f line) \<Rightarrow>
   ('a \<Rightarrow> 'b) \<Rightarrow> 'f pointer \<Rightarrow> 'f pointer \<Rightarrow> 32 word \<Rightarrow> 32 word \<Rightarrow> fault + 'f line" where
  "transform_rows cast_src cast_dst mk op src dst left right =
     (case cast_src src of
        Inl e \<Rightarrow> Inl e
      | Inr (src_p, s) \<Rightarrow>
          (case cast_dst dst of
             Inl e \<Rightarrow> Inl e
           | Inr (dst_p, d) \<Rightarrow>
               (case transform op src_p (s + unat left) (s + unat right) dst_p (d + unat left) of
                  Inl e \<Rightarrow> Inl e
                | Inr ys \<Rightarrow> Inr (mk ys))))"

text \<open>\<^verbatim>\<open>integer_to_float<uint8_t>\<close> and \<^verbatim>\<open>integer_to_float<uint16_t>\<close>.\<close>

definition integer_to_float_uint8 ::
  "('d, 'f) externals \<Rightarrow> 'f pointer \<Rightarrow> 'f pointer \<Rightarrow> 'f \<Rightarrow> 'f \<Rightarrow> 32 word \<Rightarrow> 32 word \<Rightarrow> fault + 'f line" where
  "integer_to_float_uint8 E src dst scale offset left right =
     transform_rows as_uint8 as_float FloatLine
       (\<lambda>x. float_add E (float_mul E (float_of_uint E (unat x)) scale) offset) src dst left right"

definition integer_to_float_uint16 ::
  "('d, 'f) externals \<Rightarrow> 'f pointer \<Rightarrow> 'f pointer \<Rightarrow> 'f \<Rightarrow> 'f \<Rightarrow> 32 word \<Rightarrow> 32 word \<Rightarrow> fault + 'f line" where
  "integer_to_float_uint16 E src dst scale offset left right =
     transform_rows as_uint16 as_float FloatLine
       (\<lambda>x. float_add E (float_mul E (float_of_uint E (unat x)) scale) offset) src dst left right"

definition half_to_float_n ::
  "('d, 'f) externals \<Rightarrow> 'f pointer \<Rightarrow> 'f pointer \<Rightarrow> 32 word \<Rightarrow> 32 word \<Rightarrow> fault + 'f line" where
  "half_to_float_n E src dst left right =
     transform_rows as_uint16 as_float FloatLine (half_to_float E) src dst left right"

definition float_to_half_n ::
  "('d, 'f) externals \<Rightarrow> 'f pointer \<Rightarrow> 'f pointer \<Rightarrow> 32 word \<Rightarrow> 32 word \<Rightarrow> fault + 'f line" where
  "float_to_half_n E src dst left right =
     transform_rows as_float as_uint16 WordLine (float_to_half E) src dst left right"

text \<open>
  The function pointers \<^verbatim>\<open>depth_convert_func\<close> and \<^verbatim>\<open>depth_f16c_func\<close>: the functions
  of this file they can point to. \<^verbatim>\<open>nullptr\<close> is \<open>None\<close>.
\<close>

datatype depth_convert_func = IntegerToFloatU8 | IntegerToFloatU16

datatype depth_f16c_func = HalfToFloatN | FloatToHalfN

fun call_func ::
  "('d, 'f) externals \<Rightarrow> depth_convert_func \<Rightarrow> 'f pointer \<Rightarrow> 'f pointer \<Rightarrow> 'f \<Rightarrow> 'f \<Rightarrow> 32 word \<Rightarrow> 32 word \<Rightarrow> fault + 'f line" where
  "call_func E IntegerToFloatU8 = integer_to_float_uint8 E"
| "call_func E IntegerToFloatU16 = integer_to_float_uint16 E"

fun call_f16c ::
  "('d, 'f) externals \<Rightarrow> depth_f16c_func \<Rightarrow> 'f pointer \<Rightarrow> 'f pointer \<Rightarrow> 32 word \<Rightarrow> 32 word \<Rightarrow> fault + 'f line" where
  "call_f16c E HalfToFloatN = half_to_float_n E"
| "call_f16c E FloatToHalfN = float_to_half_n E"

subsection \<open>The kernel selector\<close>

definition select_depth_convert_func :: "PixelFormat \<Rightarrow> PixelFormat \<Rightarrow> error + depth_convert_func option" where
  "select_depth_convert_func format_in format_out =
     (let type_in = type format_in;
          type_out = type format_out;
          type_in = (if type_in = HALF then FLOAT else type_in);
          type_out = (if type_out = HALF then FLOAT else type_out)
      in if type_in = BYTE \<and> type_out = FLOAT then Inr (Some IntegerToFloatU8)
         else if type_in = WORD \<and> type_out = FLOAT then Inr (Some IntegerToFloatU16)
         else if type_in = FLOAT \<and> type_out = FLOAT then Inr None
         else Inl (InternalError ''no conversion between pixel types''))"

subsection \<open>The filter\<close>

record 'f ConvertToFloat =
  m_func :: "depth_convert_func option"
  m_f16c :: "depth_f16c_func option"
  m_pixel_in :: PixelType
  m_pixel_out :: PixelType
  m_scale :: 'f
  m_offset :: 'f
  m_width :: "32 word"
  m_height :: "32 word"

text \<open>
  The constructor. \<open>range\<close> and \<open>offset\<close> are \<^verbatim>\<open>int32_t\<close>; \<^verbatim>\<open>-offset\<close> is negated
  as an integer and then converted to \<^verbatim>\<open>double\<close>.
\<close>

definition new_ConvertToFloat ::
  "('d, 'f) externals \<Rightarrow> depth_convert_func option \<Rightarrow> depth_f16c_func option \<Rightarrow> 32 word \<Rightarrow> 32 word \<Rightarrow>
   PixelFormat \<Rightarrow> PixelFormat \<Rightarrow> error + 'f ConvertToFloat" where
  "new_ConvertToFloat E func f16c width height pixel_in pixel_out =
     (if format_eq E pixel_in pixel_out then Inl (InternalError ''cannot perform no-op conversion'')
      else if f16c \<noteq> None \<and> type pixel_in \<noteq> HALF \<and> type pixel_out \<noteq> HALF
        then Inl (InternalError ''cannot provide f16c function for non-HALF types'')
      else if type pixel_out \<noteq> HALF \<and> type pixel_out \<noteq> FLOAT
        then Inl (InternalError ''DepthConvert only converts to floating point types'')
      else
        let is_integer = (type pixel_in = BYTE \<or> type pixel_in = WORD);
            range = (if is_integer
                     then integer_range E (depth pixel_in) (fullrange pixel_in) (chroma pixel_in) else 1);
            offset = (if is_integer
                      then integer_offset E (depth pixel_in) (fullrange pixel_in) (chroma pixel_in) else 0)
        in Inr \<lparr>m_func = func, m_f16c = f16c,
                m_pixel_in = type pixel_in, m_pixel_out = type pixel_out,
                m_scale = float_of_double E (double_div E (double_one E) (double_of_int32 E range)),
                m_offset = float_of_double E
                  (double_mul E (double_of_int32 E (- offset))
                     (double_div E (double_one E) (double_of_int32 E range))),
                m_width = width, m_height = height\<rparr>)"

text \<open>
  \<^verbatim>\<open>ZimgFilterFlags\<close> is declared outside this file; \<^verbatim>\<open>get_flags\<close> value-initialises it
  and assigns the two fields kept here.
\<close>

record ZimgFilterFlags =
  same_row :: bool
  in_place :: bool

definition get_flags :: "'f ConvertToFloat \<Rightarrow> ZimgFilterFlags" where
  "get_flags f =
     \<lparr>same_row = True, in_place = (pixel_size (m_pixel_in f) = pixel_size (m_pixel_out f))\<rparr>"

definition get_image_attributes :: "'f ConvertToFloat \<Rightarrow> 32 word \<times> 32 word \<times> PixelType" where
  "get_image_attributes f = (m_width f, m_height f, m_pixel_out f)"

text \<open>
  \<^verbatim>\<open>ALIGNMENT / std::min(pixel_size(m_pixel_in), pixel_size(m_pixel_out))\<close>, stored in an
  \<^verbatim>\<open>unsigned\<close>: the expression \<^verbatim>\<open>get_tmp_size\<close> and \<^verbatim>\<open>process\<close> both start with.
\<close>

definition pixel_align_of :: "('d, 'f) externals \<Rightarrow> 'f ConvertToFloat \<Rightarrow> 32 word" where
  "pixel_align_of E f =
     of_nat (ALIGNMENT E div min (pixel_size (m_pixel_in f)) (pixel_size (m_pixel_out f)))"

definition get_tmp_size :: "('d, 'f) externals \<Rightarrow> 'f ConvertToFloat \<Rightarrow> 32 word \<Rightarrow> 32 word \<Rightarrow> fault + 64 word" where
  "get_tmp_size E f left right =
     (if m_func f \<noteq> None \<and> m_f16c f \<noteq> None then
        (let pixel_align = pixel_align_of E f
         in if pixel_align = 0 then Inl DivideByZero
            else
              let left = mod_unsigned left pixel_align;
                  right = align_unsigned right pixel_align
              in Inr (ucast (right - left) * 4))
      else Inr 0)"

text \<open>
  Modelled from the spec: \<^verbatim>\<open>LineBuffer\<close> is declared in Common/linebuffer.h. The spec
  (section 6): given a buffer and a row index it returns a pointer to the start of that
  row. An image buffer is a function from the row index to the row.
\<close>

definition LineBuffer :: "(32 word \<Rightarrow> 'f line) \<Rightarrow> 32 word \<Rightarrow> 'f pointer" where
  "LineBuffer buf i = \<lparr>target = buf i, byte_off = 0\<rparr>"

text \<open>
  Lines 137 to 144 of \<^verbatim>\<open>process\<close>: the base column \<open>line_base\<close> the row pointers are
  moved to, and the bounds \<open>left - line_base\<close> and \<open>right - line_base\<close> that the kernels
  are called with.
\<close>

record window =
  line_base :: "32 word"
  w_left :: "32 word"
  w_right :: "32 word"

definition tile_window :: "32 word \<Rightarrow> 32 word \<Rightarrow> 32 word \<Rightarrow> window" where
  "tile_window pixel_align left right =
     (let line_base = mod_unsigned left pixel_align
      in \<lparr>line_base = line_base, w_left = left - line_base, w_right = right - line_base\<rparr>)"

text \<open>
  Lines 146 to 153 of \<^verbatim>\<open>process\<close>: the dispatch on the two function pointers. The result
  is the destination row and the scratch buffer after the call. The last branch of the
  source calls \<^verbatim>\<open>m_f16c\<close> without a test.
\<close>

definition run_kernels ::
  "('d, 'f) externals \<Rightarrow> 'f ConvertToFloat \<Rightarrow> 'f pointer \<Rightarrow> 'f pointer \<Rightarrow> 'f line \<Rightarrow> 32 word \<Rightarrow> 32 word \<Rightarrow>
   fault + 'f line \<times> 'f line" where
  "run_kernels E f src_line dst_line tmp left right =
     (case m_func f of
        Some func \<Rightarrow>
          (case m_f16c f of
             Some f16c \<Rightarrow>
               (case call_func E func src_line \<lparr>target = tmp, byte_off = 0\<rparr> (m_scale f) (m_offset f) left right of
                  Inl e \<Rightarrow> Inl e
                | Inr tmp' \<Rightarrow>
                    (case call_f16c E f16c \<lparr>target = tmp', byte_off = 0\<rparr> dst_line left right of
                       Inl e \<Rightarrow> Inl e
                     | Inr d \<Rightarrow> Inr (d, tmp')))
           | None \<Rightarrow>
               (case call_func E func src_line dst_line (m_scale f) (m_offset f) left right of
                  Inl e \<Rightarrow> Inl e
                | Inr d \<Rightarrow> Inr (d, tmp)))
      | None \<Rightarrow>
          (case m_f16c f of
             Some f16c \<Rightarrow>
               (case call_f16c E f16c src_line dst_line left right of
                  Inl e \<Rightarrow> Inl e
                | Inr d \<Rightarrow> Inr (d, tmp))
           | None \<Rightarrow> Inl NullCall))"

definition process ::
  "('d, 'f) externals \<Rightarrow> 'f ConvertToFloat \<Rightarrow> (32 word \<Rightarrow> 'f line) \<Rightarrow> (32 word \<Rightarrow> 'f line) \<Rightarrow> 'f line \<Rightarrow>
   32 word \<Rightarrow> 32 word \<Rightarrow> 32 word \<Rightarrow> fault + (32 word \<Rightarrow> 'f line) \<times> 'f line" where
  "process E f src dst tmp i left right =
     (let src_line = LineBuffer src i;
          dst_line = LineBuffer dst i;
          pixel_align = pixel_align_of E f
      in if pixel_align = 0 then Inl DivideByZero
         else
           let w = tile_window pixel_align left right;
               src_line = ptr_add src_line (unat (of_nat (pixel_size (m_pixel_in f)) * line_base w));
               dst_line = ptr_add dst_line (unat (of_nat (pixel_size (m_pixel_out f)) * line_base w))
           in (case run_kernels E f src_line dst_line tmp (w_left w) (w_right w) of
                 Inl e \<Rightarrow> Inl e
               | Inr (d, tmp') \<Rightarrow> Inr (dst(i := d), tmp')))"

subsection \<open>The factory\<close>

definition create_convert_to_float ::
  "('d, 'f) externals \<Rightarrow> 32 word \<Rightarrow> 32 word \<Rightarrow> PixelFormat \<Rightarrow> PixelFormat \<Rightarrow> 'c \<Rightarrow> error + 'f ConvertToFloat" where
  "create_convert_to_float E width height pixel_in pixel_out cpu =
     (let func = None;
          f16c = None;
          needs_f16c = (type pixel_in = HALF \<or> type pixel_out = HALF)
      in case (if func = None then select_depth_convert_func pixel_in pixel_out else Inr func) of
           Inl e \<Rightarrow> Inl e
         | Inr func \<Rightarrow>
             let f16c = (if needs_f16c \<and> f16c = None \<and> type pixel_in = HALF then Some HalfToFloatN else f16c);
                 f16c = (if needs_f16c \<and> f16c = None \<and> type pixel_out = HALF then Some FloatToHalfN else f16c)
             in new_ConvertToFloat E func f16c width height pixel_in pixel_out)"

subsection \<open>Observing rows\<close>

text \<open>
  The elements of a row, whatever its element type, and the size of one element in bytes.
  The properties below speak of rows through these two functions.
\<close>

datatype 'f sample = SByte "8 word" | SWord "16 word" | SFloat 'f

fun cells :: "'f line \<Rightarrow> 'f sample list" where
  "cells (ByteLine xs) = map SByte xs"
| "cells (WordLine xs) = map SWord xs"
| "cells (FloatLine xs) = map SFloat xs"

fun elem_size :: "'f line \<Rightarrow> nat" where
  "elem_size (ByteLine xs) = 1"
| "elem_size (WordLine xs) = 2"
| "elem_size (FloatLine xs) = 4"




fun func_cell :: "('d, 'f) externals \<Rightarrow> 'f \<Rightarrow> 'f \<Rightarrow> 'f sample \<Rightarrow> 'f sample" where
  "func_cell E scale offset (SByte x) =
     SFloat (float_add E (float_mul E (float_of_uint E (unat x)) scale) offset)"
| "func_cell E scale offset (SWord x) =
     SFloat (float_add E (float_mul E (float_of_uint E (unat x)) scale) offset)"
| "func_cell E scale offset (SFloat v) = SFloat v"

fun f16c_cell :: "('d, 'f) externals \<Rightarrow> depth_f16c_func \<Rightarrow> 'f sample \<Rightarrow> 'f sample" where
  "f16c_cell E HalfToFloatN (SWord h) = SFloat (half_to_float E h)"
| "f16c_cell E FloatToHalfN (SFloat v) = SWord (float_to_half E v)"
| "f16c_cell E k s = s"


text \<open>
  \<open>replaced g src s old d n new\<close>: the row \<open>new\<close> is the row \<open>old\<close> with the \<open>n\<close>
  elements from index \<open>d\<close> replaced by \<open>g\<close> of the \<open>n\<close> elements of \<open>src\<close> from index
  \<open>s\<close>.
\<close>

definition replaced ::
  "('f sample \<Rightarrow> 'f sample) \<Rightarrow> 'f line \<Rightarrow> nat \<Rightarrow> 'f line \<Rightarrow> nat \<Rightarrow> nat \<Rightarrow> 'f line \<Rightarrow> bool" where
  "replaced g src s old d n new \<longleftrightarrow>
     elem_size new = elem_size old \<and>
     cells new = take d (cells old) @ map g (take n (drop s (cells src))) @ drop (d + n) (cells old)"

text \<open>
  \<open>elementwise a b g K\<close>: the kernel \<open>K\<close> reads elements of \<open>a\<close> bytes, writes elements
  of \<open>b\<close> bytes, and returns exactly when both rows have these element types, both
  pointers are aligned and the range is inside both rows; it then replaces the range by
  \<open>g\<close> of the source elements.
\<close>

definition elementwise ::
  "nat \<Rightarrow> nat \<Rightarrow> ('f sample \<Rightarrow> 'f sample) \<Rightarrow>
   ('f pointer \<Rightarrow> 'f pointer \<Rightarrow> 32 word \<Rightarrow> 32 word \<Rightarrow> fault + 'f line) \<Rightarrow> bool" where
  "elementwise a b g K \<longleftrightarrow>
     (\<forall>src dst l r d'.
        K src dst l r = Inr d' \<longleftrightarrow>
          elem_size (target src) = a \<and> elem_size (target dst) = b \<and>
          a dvd byte_off src \<and> b dvd byte_off dst \<and> l \<le> r \<and>
          (l = r \<or>
           (byte_off src div a + unat r \<le> length (cells (target src)) \<and>
            byte_off dst div b + unat r \<le> length (cells (target dst)))) \<and>
          replaced g (target src) (byte_off src div a + unat l)
            (target dst) (byte_off dst div b + unat l) (unat r - unat l) d')"


text \<open>
  Two rows of the same element type and length that hold the same elements outside, and
  inside, the index range \<open>[a, b)\<close>.
\<close>

definition same_outside :: "nat \<Rightarrow> nat \<Rightarrow> 'f line \<Rightarrow> 'f line \<Rightarrow> bool" where
  "same_outside a b old new \<longleftrightarrow>
     elem_size new = elem_size old \<and> length (cells new) = length (cells old) \<and>
     (\<forall>j < length (cells old). j < a \<or> b \<le> j \<longrightarrow> cells new ! j = cells old ! j)"



subsection \<open>An instance of the external collaborators\<close>

text \<open>
  For evaluating the model on concrete inputs: \<^verbatim>\<open>ALIGNMENT\<close> is 32, \<^verbatim>\<open>float\<close> and
  \<^verbatim>\<open>double\<close> are the real numbers with exact arithmetic, every integer format is full
  range with offset 0, and a half-float stands for the integer of its bit pattern. Two
  integer formats are equal when all their fields are, two floating formats when their
  types are.
\<close>

definition exact_env :: "(real, real) externals" where
  "exact_env =
     \<lparr>ALIGNMENT = 32,
      format_eq = (\<lambda>a b. if type a = HALF \<or> type a = FLOAT then type a = type b else a = b),
      integer_range = (\<lambda>bits fullrange chroma. 2 ^ nat bits - 1),
      integer_offset = (\<lambda>bits fullrange chroma. 0),
      half_to_float = (\<lambda>h. real (unat h)),
      float_to_half = (\<lambda>x. of_nat (nat \<lfloor>x\<rfloor>)),
      double_of_int32 = (\<lambda>x. real_of_int (sint x)),
      double_one = 1,
      double_div = (/),
      double_mul = (*),
      float_of_double = (\<lambda>x. x),
      float_of_uint = real,
      float_mul = (*),
      float_add = (+)\<rparr>"

definition byte_format :: PixelFormat where
  "byte_format = \<lparr>type = BYTE, depth = 8, fullrange = True, chroma = False\<rparr>"

definition word_format :: PixelFormat where
  "word_format = \<lparr>type = WORD, depth = 16, fullrange = True, chroma = False\<rparr>"

definition half_format :: PixelFormat where
  "half_format = \<lparr>type = HALF, depth = 16, fullrange = True, chroma = False\<rparr>"

definition float_format :: PixelFormat where
  "float_format = \<lparr>type = FLOAT, depth = 32, fullrange = True, chroma = False\<rparr>"

text \<open>
  Filters over this instance: 8-bit to float and 16-bit to half, as the factory makes them,
  and a filter record with neither kernel.
\<close>

definition byte_filter :: "real ConvertToFloat" where
  "byte_filter =
     \<lparr>m_func = Some IntegerToFloatU8, m_f16c = None, m_pixel_in = BYTE, m_pixel_out = FLOAT,
      m_scale = 1 / 255, m_offset = 0, m_width = 4, m_height = 1\<rparr>"

definition word_half_filter :: "real ConvertToFloat" where
  "word_half_filter =
     \<lparr>m_func = Some IntegerToFloatU16, m_f16c = Some FloatToHalfN, m_pixel_in = WORD, m_pixel_out = HALF,
      m_scale = 1 / 65535, m_offset = 0, m_width = 4, m_height = 1\<rparr>"

definition float_filter :: "real ConvertToFloat" where
  "float_filter =
     \<lparr>m_func = None, m_f16c = None, m_pixel_in = FLOAT, m_pixel_out = FLOAT,
      m_scale = 1, m_offset = 0, m_width = 4, m_height = 1\<rparr>"


section \<open>Properties\<close>

subsection \<open>The loop of the kernels\<close>

lemma transform_closed:
  "transform op xs i e ys d =
     (if i \<le> e \<and> (i = e \<or> (e \<le> length xs \<and> d + (e - i) \<le> length ys))
      then Inr (take d ys @ map op (take (e - i) (drop i xs)) @ drop (d + (e - i)) ys)
      else Inl OutOfRange)"
proof (induction op xs i e ys d rule: transform.induct)
  case (1 op xs first finish ys d_first)
  show ?case
  proof (cases "first = finish")
    case True
    then show ?thesis by (simp add: transform.simps)
  next
    case ne: False
    show ?thesis
    proof (cases "first < length xs \<and> d_first < length ys")
      case False
      with ne show ?thesis
        by (subst transform.simps) auto
    next
      case True
      note ih = 1 [OF ne True]
      show ?thesis
      proof (cases "first < finish")
        case False
        with ne True show ?thesis
          by (subst transform.simps) (simp add: ih)
      next
        case lt: True
        then obtain n where n: "finish - first = Suc n" "finish - Suc first = n"
          by (cases "finish - first") auto
        have seg: "take (Suc n) (drop first xs) = xs ! first # take n (drop (Suc first) xs)"
          using True by (simp add: Cons_nth_drop_Suc [symmetric])
        have pre: "take (Suc d_first) (ys[d_first := v]) = take d_first ys @ [v]" for v
          using True by (simp add: take_Suc_conv_app_nth)
        show ?thesis
          using ne True lt n
          by (subst transform.simps) (auto simp: ih seg pre)
      qed
    qed
  qed
qed

subsection \<open>Rows and their elements\<close>



lemma FloatLine_eq_iff: "FloatLine zs = d \<longleftrightarrow> elem_size d = 4 \<and> cells d = map SFloat zs"
  by (cases d) (auto simp: inj_map_eq_map inj_on_def)

lemma WordLine_eq_iff: "WordLine zs = d \<longleftrightarrow> elem_size d = 2 \<and> cells d = map SWord zs"
  by (cases d) (auto simp: inj_map_eq_map inj_on_def)

subsection \<open>The kernels, element by element\<close>

lemma func_cell_SByte:
  "func_cell E scale offset \<circ> SByte =
     (\<lambda>x. SFloat (float_add E (float_mul E (float_of_uint E (unat x)) scale) offset))"
  by (simp add: fun_eq_iff)

lemma func_cell_SWord:
  "func_cell E scale offset \<circ> SWord =
     (\<lambda>x. SFloat (float_add E (float_mul E (float_of_uint E (unat x)) scale) offset))"
  by (simp add: fun_eq_iff)

lemma f16c_cell_SWord: "f16c_cell E HalfToFloatN \<circ> SWord = (\<lambda>h. SFloat (half_to_float E h))"
  by (simp add: fun_eq_iff)

lemma f16c_cell_SFloat: "f16c_cell E FloatToHalfN \<circ> SFloat = (\<lambda>v. SWord (float_to_half E v))"
  by (simp add: fun_eq_iff)

lemmas kernel_unfold =
  transform_rows_def as_uint8_def as_uint16_def as_float_def transform_closed replaced_def
  word_le_nat_alt word_unat_eq_iff take_map drop_map FloatLine_eq_iff WordLine_eq_iff
  dvd_eq_mod_eq_0 comp_def

lemma elementwise_uint8:
  "elementwise 1 4 (func_cell E scale offset) (\<lambda>src dst. integer_to_float_uint8 E src dst scale offset)"
  unfolding elementwise_def
  apply (intro allI)
  subgoal for src dst l r d'
    by (cases "target src"; cases "target dst") (auto simp: integer_to_float_uint8_def kernel_unfold)
  done

lemma elementwise_uint16:
  "elementwise 2 4 (func_cell E scale offset) (\<lambda>src dst. integer_to_float_uint16 E src dst scale offset)"
  unfolding elementwise_def
  apply (intro allI)
  subgoal for src dst l r d'
    by (cases "target src"; cases "target dst") (auto simp: integer_to_float_uint16_def kernel_unfold)
  done






subsection \<open>Arithmetic of the tile window\<close>

lemma unat_mod_unsigned: "unat (mod_unsigned x n) = unat x - unat x mod unat n"
proof -
  have "x mod n \<le> x"
    by (simp add: word_le_nat_alt unat_mod)
  then show ?thesis
    by (simp add: mod_unsigned_def unat_sub unat_mod)
qed






subsection \<open>What a returning call of process leaves behind\<close>






subsection \<open>The kernel selector\<close>

text \<open>
  Claim C3. With \<^verbatim>\<open>HALF\<close> read as \<^verbatim>\<open>FLOAT\<close> on both sides, the selector returns the
  8-bit integer-to-float kernel for an 8-bit source and a floating destination, the 16-bit
  integer-to-float kernel for a 16-bit source and a floating destination, the null kernel
  when both sides are floating, and throws the internal error for every other pair (the
  pairs with an integer destination). The result depends on the two pixel types only: two
  calls whose formats have the same types return the same result.
\<close>

theorem select_depth_convert_func_table:
  "(type format_in = BYTE \<and> (type format_out = HALF \<or> type format_out = FLOAT) \<longrightarrow>
      select_depth_convert_func format_in format_out = Inr (Some IntegerToFloatU8)) \<and>
   (type format_in = WORD \<and> (type format_out = HALF \<or> type format_out = FLOAT) \<longrightarrow>
      select_depth_convert_func format_in format_out = Inr (Some IntegerToFloatU16)) \<and>
   ((type format_in = HALF \<or> type format_in = FLOAT) \<and>
    (type format_out = HALF \<or> type format_out = FLOAT) \<longrightarrow>
      select_depth_convert_func format_in format_out = Inr None) \<and>
   (type format_out = BYTE \<or> type format_out = WORD \<longrightarrow>
      select_depth_convert_func format_in format_out =
        Inl (InternalError ''no conversion between pixel types'')) \<and>
   (type format_in' = type format_in \<and> type format_out' = type format_out \<longrightarrow>
      select_depth_convert_func format_in' format_out' =
        select_depth_convert_func format_in format_out)"
  by (cases "type format_in"; cases "type format_out")
     (simp_all add: select_depth_convert_func_def)

theorem select_depth_convert_func_table_witness:
  "select_depth_convert_func byte_format float_format = Inr (Some IntegerToFloatU8) \<and>
   select_depth_convert_func word_format half_format = Inr (Some IntegerToFloatU16) \<and>
   select_depth_convert_func half_format float_format = Inr None \<and>
   select_depth_convert_func float_format word_format =
     Inl (InternalError ''no conversion between pixel types'') \<and>
   select_depth_convert_func (byte_format\<lparr>depth := 7, chroma := True\<rparr>) half_format =
     select_depth_convert_func byte_format half_format"
proof -
  note t = select_depth_convert_func_table
  have types: "type byte_format = BYTE" "type word_format = WORD" "type half_format = HALF"
    "type float_format = FLOAT" "type (byte_format\<lparr>depth := 7, chroma := True\<rparr>) = BYTE"
    by (simp_all add: byte_format_def word_format_def half_format_def float_format_def)
  show ?thesis
    using t [of byte_format float_format, THEN conjunct1]
      t [of word_format half_format, THEN conjunct2, THEN conjunct1]
      t [of half_format float_format, THEN conjunct2, THEN conjunct2, THEN conjunct1]
      t [of float_format word_format, THEN conjunct2, THEN conjunct2, THEN conjunct2, THEN conjunct1]
      t [of byte_format half_format "byte_format\<lparr>depth := 7, chroma := True\<rparr>" half_format,
         THEN conjunct2, THEN conjunct2, THEN conjunct2, THEN conjunct2]
    by (simp only: types) simp
qed

subsection \<open>Construction\<close>

lemma new_ConvertToFloat_guards:
  "isl (new_ConvertToFloat E func f16c width height pixel_in pixel_out) \<longleftrightarrow>
     format_eq E pixel_in pixel_out \<or>
     (f16c \<noteq> None \<and> type pixel_in \<noteq> HALF \<and> type pixel_out \<noteq> HALF) \<or>
     (type pixel_out \<noteq> HALF \<and> type pixel_out \<noteq> FLOAT)"
  by (simp add: new_ConvertToFloat_def Let_def)

lemma floats_equal_by_type_exact_env: "floats_equal_by_type exact_env"
  by (auto simp: floats_equal_by_type_def exact_env_def)

text \<open>
  Claim C4. The constructor throws the internal error in exactly these cases: the input
  format equals the output format (\<^verbatim>\<open>operator==\<close>); a half-float kernel is supplied and
  it is not the case that exactly one of the input and the output type is \<^verbatim>\<open>HALF\<close>; or
  the output type is neither \<^verbatim>\<open>HALF\<close> nor \<^verbatim>\<open>FLOAT\<close>. In every other case it returns a
  filter. The second guard of the source tests "neither type is \<^verbatim>\<open>HALF\<close>"; a pair of two
  \<^verbatim>\<open>HALF\<close> formats is rejected by the first guard, since formats of the same floating
  type compare equal (\<open>floats_equal_by_type\<close>).
\<close>

theorem new_ConvertToFloat_fails_iff:
  assumes "floats_equal_by_type E"
  shows "isl (new_ConvertToFloat E func f16c width height pixel_in pixel_out) \<longleftrightarrow>
     format_eq E pixel_in pixel_out \<or>
     (f16c \<noteq> None \<and> \<not> ((type pixel_in = HALF) \<noteq> (type pixel_out = HALF))) \<or>
     (type pixel_out \<noteq> HALF \<and> type pixel_out \<noteq> FLOAT)"
proof -
  have "format_eq E pixel_in pixel_out" if "type pixel_in = HALF" "type pixel_out = HALF"
    using assms that by (simp add: floats_equal_by_type_def)
  then show ?thesis
    unfolding new_ConvertToFloat_guards by blast
qed

theorem new_ConvertToFloat_fails_iff_witness:
  "floats_equal_by_type exact_env \<and>
   isl (new_ConvertToFloat exact_env None None 4 1 float_format float_format) \<and>
   isl (new_ConvertToFloat exact_env (Some IntegerToFloatU8) (Some FloatToHalfN) 4 1 byte_format float_format) \<and>
   isl (new_ConvertToFloat exact_env None (Some HalfToFloatN) 4 1 half_format (half_format\<lparr>chroma := True\<rparr>)) \<and>
   isl (new_ConvertToFloat exact_env None (Some HalfToFloatN) 4 1 half_format word_format) \<and>
   \<not> isl (new_ConvertToFloat exact_env (Some IntegerToFloatU8) None 4 1 byte_format float_format) \<and>
   \<not> isl (new_ConvertToFloat exact_env None (Some HalfToFloatN) 4 1 half_format float_format)"
proof -
  note t = new_ConvertToFloat_fails_iff [OF floats_equal_by_type_exact_env]
  have eqs: "format_eq exact_env float_format float_format"
    "\<not> format_eq exact_env byte_format float_format"
    "format_eq exact_env half_format (half_format\<lparr>chroma := True\<rparr>)"
    "\<not> format_eq exact_env half_format word_format"
    "\<not> format_eq exact_env half_format float_format"
    by (simp_all add: exact_env_def byte_format_def word_format_def half_format_def float_format_def)
  have types: "type byte_format = BYTE" "type word_format = WORD" "type half_format = HALF"
    "type float_format = FLOAT" "type (half_format\<lparr>chroma := True\<rparr>) = HALF"
    by (simp_all add: byte_format_def word_format_def half_format_def float_format_def)
  show ?thesis
    using floats_equal_by_type_exact_env
      t [of None None 4 1 float_format float_format]
      t [of "Some IntegerToFloatU8" "Some FloatToHalfN" 4 1 byte_format float_format]
      t [of None "Some HalfToFloatN" 4 1 half_format "half_format\<lparr>chroma := True\<rparr>"]
      t [of None "Some HalfToFloatN" 4 1 half_format word_format]
      t [of "Some IntegerToFloatU8" None 4 1 byte_format float_format]
      t [of None "Some HalfToFloatN" 4 1 half_format float_format]
    by (simp add: eqs types)
qed

subsection \<open>Flags\<close>

text \<open>
  Claim C8. For every constructed filter \<^verbatim>\<open>get_flags\<close> reports \<^verbatim>\<open>same_row\<close> as true,
  and \<^verbatim>\<open>in_place\<close> as true exactly when the input and the output pixel have the same
  size in bytes.
\<close>

theorem get_flags_constructed:
  "new_ConvertToFloat E func f16c width height pixel_in pixel_out = Inr f \<Longrightarrow>
   same_row (get_flags f) \<and>
   (in_place (get_flags f) \<longleftrightarrow> pixel_size (type pixel_in) = pixel_size (type pixel_out)) \<and>
   (in_place (get_flags f) \<longleftrightarrow> pixel_size (m_pixel_in f) = pixel_size (m_pixel_out f))"
  by (auto simp: new_ConvertToFloat_def get_flags_def Let_def split: if_splits)

theorem get_flags_constructed_witness:
  "new_ConvertToFloat exact_env (Some IntegerToFloatU16) (Some FloatToHalfN) 4 1 word_format half_format =
     Inr \<lparr>m_func = Some IntegerToFloatU16, m_f16c = Some FloatToHalfN, m_pixel_in = WORD,
          m_pixel_out = HALF, m_scale = 1 / 65535, m_offset = 0, m_width = 4, m_height = 1\<rparr> \<and>
   same_row (get_flags \<lparr>m_func = Some IntegerToFloatU16, m_f16c = Some FloatToHalfN, m_pixel_in = WORD,
          m_pixel_out = HALF, m_scale = 1 / 65535 :: real, m_offset = 0, m_width = 4, m_height = 1\<rparr>) \<and>
   in_place (get_flags \<lparr>m_func = Some IntegerToFloatU16, m_f16c = Some FloatToHalfN, m_pixel_in = WORD,
          m_pixel_out = HALF, m_scale = 1 / 65535 :: real, m_offset = 0, m_width = 4, m_height = 1\<rparr>)"
proof -
  have made: "new_ConvertToFloat exact_env (Some IntegerToFloatU16) (Some FloatToHalfN) 4 1 word_format half_format =
     Inr \<lparr>m_func = Some IntegerToFloatU16, m_f16c = Some FloatToHalfN, m_pixel_in = WORD,
          m_pixel_out = HALF, m_scale = 1 / 65535, m_offset = 0, m_width = 4, m_height = 1\<rparr>"
    by (simp add: new_ConvertToFloat_def exact_env_def word_format_def half_format_def)
  show ?thesis
    using made get_flags_constructed [OF made]
    by (simp add: word_format_def half_format_def)
qed

subsection \<open>The scratch buffer\<close>



subsection \<open>The tile window of process\<close>




subsection \<open>A filter without a kernel\<close>

lemma transform_rows_not_null:
  assumes "\<And>p. cast_src p \<noteq> Inl NullCall" and "\<And>p. cast_dst p \<noteq> Inl NullCall"
  shows "transform_rows cast_src cast_dst mk op src dst l r \<noteq> Inl NullCall"
  using assms(1) [of src] assms(2) [of dst]
  by (auto simp: transform_rows_def transform_closed split: sum.splits if_splits)

lemma casts_not_null:
  "as_uint8 p \<noteq> Inl NullCall" "as_uint16 p \<noteq> Inl NullCall" "as_float p \<noteq> Inl NullCall"
  by (auto simp: as_uint8_def as_uint16_def as_float_def split: line.splits)

lemma call_func_not_null: "call_func E fn src dst scale offset l r \<noteq> Inl NullCall"
  by (cases fn)
     (simp_all add: integer_to_float_uint8_def integer_to_float_uint16_def transform_rows_not_null
        casts_not_null)

lemma call_f16c_not_null: "call_f16c E h src dst l r \<noteq> Inl NullCall"
  by (cases h)
     (simp_all add: half_to_float_n_def float_to_half_n_def transform_rows_not_null casts_not_null)

lemma process_null_call_iff:
  "process E f src dst tmp i left right = Inl NullCall \<longleftrightarrow>
     pixel_align_of E f \<noteq> 0 \<and> m_func f = None \<and> m_f16c f = None"
  using call_func_not_null [of E] call_f16c_not_null [of E]
  by (auto simp: process_def run_kernels_def Let_def split: option.splits sum.splits)

lemma create_guards:
  "isl (create_convert_to_float E width height pixel_in pixel_out cpu) \<longleftrightarrow>
     format_eq E pixel_in pixel_out \<or> type pixel_out = BYTE \<or> type pixel_out = WORD"
  by (cases "type pixel_in"; cases "type pixel_out")
     (auto simp: create_convert_to_float_def select_depth_convert_func_def new_ConvertToFloat_def Let_def)

text \<open>
  Claim C6, as amended. \<^verbatim>\<open>process\<close> does not test for a filter with neither kernel: its
  last branch calls \<^verbatim>\<open>m_f16c\<close> whatever it is, so with neither kernel present (and a
  nonzero \<^verbatim>\<open>pixel_align\<close>, which the source divides by first) the call goes through a
  null pointer and no error is signalled. The case cannot occur for a filter
  obtained from the factory: whenever the factory returns a filter, that filter has a
  kernel, because a request with two \<^verbatim>\<open>FLOAT\<close> formats is rejected as a no-op conversion
  (formats of the same floating type compare equal, \<open>floats_equal_by_type\<close>).
\<close>

theorem process_without_kernel:
  "(m_func f = None \<and> m_f16c f = None \<and> pixel_align_of E f \<noteq> 0 \<longrightarrow>
      process E f src dst tmp i left right = Inl NullCall) \<and>
   (floats_equal_by_type E \<and>
    create_convert_to_float E width height pixel_in pixel_out cpu = Inr g \<longrightarrow>
      (m_func g \<noteq> None \<or> m_f16c g \<noteq> None) \<and>
      process E g src dst tmp i left right \<noteq> Inl NullCall)"
proof (intro conjI impI)
  assume "m_func f = None \<and> m_f16c f = None \<and> pixel_align_of E f \<noteq> 0"
  then show "process E f src dst tmp i left right = Inl NullCall"
    by (simp add: process_null_call_iff)
next
  assume a: "floats_equal_by_type E \<and>
    create_convert_to_float E width height pixel_in pixel_out cpu = Inr g"
  then have made: "create_convert_to_float E width height pixel_in pixel_out cpu = Inr g"
    and eq: "type pixel_in = FLOAT \<and> type pixel_out = FLOAT \<longrightarrow> format_eq E pixel_in pixel_out"
    by (simp_all add: floats_equal_by_type_def)
  from made have "\<not> isl (create_convert_to_float E width height pixel_in pixel_out cpu)"
    by simp
  then have "\<not> format_eq E pixel_in pixel_out"
    by (simp add: create_guards)
  with eq have "\<not> (type pixel_in = FLOAT \<and> type pixel_out = FLOAT)"
    by blast
  with made show k: "m_func g \<noteq> None \<or> m_f16c g \<noteq> None"
    by (cases "type pixel_in"; cases "type pixel_out")
       (auto simp: create_convert_to_float_def select_depth_convert_func_def new_ConvertToFloat_def
          Let_def split: if_splits)
  then show "process E g src dst tmp i left right \<noteq> Inl NullCall"
    by (auto simp: process_null_call_iff)
qed

theorem process_without_kernel_witness:
  "m_func float_filter = None \<and> m_f16c float_filter = None \<and>
   pixel_align_of exact_env float_filter = 8 \<and>
   process exact_env float_filter (\<lambda>r. FloatLine [0, 1 / 2, 1, 1 / 4]) (\<lambda>r. FloatLine [0, 0, 0, 0])
       (FloatLine []) 0 0 4 = Inl NullCall \<and>
   floats_equal_by_type exact_env \<and>
   create_convert_to_float exact_env 4 1 byte_format float_format () = Inr byte_filter \<and>
   m_func byte_filter \<noteq> None \<and>
   process exact_env byte_filter (\<lambda>r. ByteLine [0, 85, 170, 255]) (\<lambda>r. FloatLine [0, 0, 0, 0])
       (FloatLine []) 0 0 4 \<noteq> Inl NullCall \<and>
   isl (create_convert_to_float exact_env 4 1 float_format (float_format\<lparr>chroma := True\<rparr>) ())"
proof -
  have none: "m_func float_filter = None" "m_f16c float_filter = None"
    and k: "pixel_align_of exact_env float_filter = 8"
    by (simp_all add: float_filter_def pixel_align_of_def exact_env_def)
  have made: "create_convert_to_float exact_env 4 1 byte_format float_format () = Inr byte_filter"
    by (simp add: create_convert_to_float_def select_depth_convert_func_def new_ConvertToFloat_def
        byte_format_def float_format_def byte_filter_def exact_env_def)
  have some: "m_func byte_filter \<noteq> None"
    by (simp add: byte_filter_def)
  have rejected: "isl (create_convert_to_float exact_env 4 1 float_format (float_format\<lparr>chroma := True\<rparr>) ())"
    by (simp add: create_guards exact_env_def float_format_def)
  note t = process_without_kernel [where E = exact_env and f = float_filter and g = byte_filter
      and width = 4 and height = 1 and pixel_in = byte_format and pixel_out = float_format and cpu = "()"]
  from t [where src = "\<lambda>r. FloatLine [0, 1 / 2, 1, 1 / 4]" and dst = "\<lambda>r. FloatLine [0, 0, 0, 0]"
      and tmp = "FloatLine []" and i = 0 and left = 0 and right = 4, THEN conjunct1] none k
  have a: "process exact_env float_filter (\<lambda>r. FloatLine [0, 1 / 2, 1, 1 / 4]) (\<lambda>r. FloatLine [0, 0, 0, 0])
       (FloatLine []) 0 0 4 = Inl NullCall"
    by simp
  from t [where src = "\<lambda>r. ByteLine [0, 85, 170, 255]" and dst = "\<lambda>r. FloatLine [0, 0, 0, 0]"
      and tmp = "FloatLine []" and i = 0 and left = 0 and right = 4, THEN conjunct2]
    floats_equal_by_type_exact_env made
  have b: "process exact_env byte_filter (\<lambda>r. ByteLine [0, 85, 170, 255]) (\<lambda>r. FloatLine [0, 0, 0, 0])
       (FloatLine []) 0 0 4 \<noteq> Inl NullCall"
    by blast
  from none k a floats_equal_by_type_exact_env made some b rejected show ?thesis
    by (intro conjI)
qed

text \<open>
  The claim as stated has the call signal a caller error. On a filter with neither kernel
  the call is a call through the null \<^verbatim>\<open>m_f16c\<close>: undefined behaviour, not an error.
\<close>

theorem process_without_kernel_counterexample:
  "m_func float_filter = None \<and> m_f16c float_filter = None \<and>
   process exact_env float_filter (\<lambda>r. FloatLine [0, 1 / 2, 1, 1 / 4]) (\<lambda>r. FloatLine [0, 0, 0, 0])
       (FloatLine []) 0 0 4 = Inl NullCall"
  by (simp add: float_filter_def exact_env_def process_def pixel_align_of_def run_kernels_def)

subsection \<open>What a call writes and what it reads\<close>

lemma replaced_same_outside:
  assumes "replaced g S s D d n d'" and "n = 0 \<or> (s + n \<le> length (cells S) \<and> d + n \<le> length (cells D))"
  shows "same_outside d (d + n) D d'"
proof (cases "n = 0")
  case True
  with assms(1) have "cells d' = cells D" "elem_size d' = elem_size D"
    by (simp_all add: replaced_def)
  then show ?thesis by (simp add: same_outside_def)
next
  case False
  with assms(2) have b: "s + n \<le> length (cells S)" "d + n \<le> length (cells D)" by auto
  define M where "M = map g (take n (drop s (cells S)))"
  have c: "cells d' = take d (cells D) @ M @ drop (d + n) (cells D)" and e: "elem_size d' = elem_size D"
    using assms(1) by (simp_all add: replaced_def M_def)
  have lM: "length M = n" using b by (simp add: M_def)
  have len: "length (cells d') = length (cells D)"
    using b by (simp add: c lM)
  have "cells d' ! j = cells D ! j" if "j < length (cells D)" and "j < d \<or> d + n \<le> j" for j
  proof (cases "j < d")
    case True
    then show ?thesis using b by (simp add: c nth_append)
  next
    case False
    with that have "d + n \<le> j" by simp
    then obtain m where j: "j = d + n + m" using le_Suc_ex by blast
    have "cells d' ! j = (M @ drop (d + n) (cells D)) ! (n + m)"
      using b by (simp add: c nth_append j)
    also have "\<dots> = drop (d + n) (cells D) ! m"
      by (simp add: nth_append lM)
    also have "\<dots> = cells D ! j"
      using that(1) by (simp add: j)
    finally show ?thesis .
  qed
  with len e show ?thesis by (simp add: same_outside_def)
qed












lemmas eval_kernels =
  integer_to_float_uint8_def integer_to_float_uint16_def half_to_float_n_def float_to_half_n_def
  transform_rows_def as_uint8_def as_uint16_def as_float_def transform_closed





subsection \<open>Two adjacent ranges\<close>








lemma replaced_empty: "replaced g S s D d 0 D"
  by (simp add: replaced_def)






subsection \<open>Determinism\<close>

lemma replaced_nth:
  assumes "replaced g S s D d n d'" and "s + n \<le> length (cells S)" and "d + n \<le> length (cells D)"
    and "j < n"
  shows "cells d' ! (d + j) = g (cells S ! (s + j))"
proof -
  have c: "cells d' = take d (cells D) @ map g (take n (drop s (cells S))) @ drop (d + n) (cells D)"
    using assms(1) by (simp add: replaced_def)
  have "cells d' ! (d + j) = (map g (take n (drop s (cells S))) @ drop (d + n) (cells D)) ! j"
    using assms(3) by (simp add: c nth_append)
  also have "\<dots> = g (cells S ! (s + j))"
    using assms(2,4) by (simp add: nth_append)
  finally show ?thesis .
qed






subsection \<open>The size of the scratch buffer and the window of process\<close>

lemma unat_align_unsigned:
  assumes "n \<noteq> 0" and "unat x + unat n \<le> 2 ^ 32"
  shows "unat (align_unsigned x n) = (if unat x mod unat n = 0 then unat x else unat x + unat n - unat x mod unat n)"
proof (cases "x mod n = 0")
  case True
  then have "unat x mod unat n = 0"
    by (metis unat_mod unat_0)
  with True show ?thesis by (simp add: align_unsigned_def)
next
  case False
  then have nz: "unat x mod unat n \<noteq> 0"
    by (metis unat_mod unat_eq_zero)
  have pos: "0 < unat n" using assms(1) by (simp add: unat_gt_0)
  have lt: "unat x mod unat n < unat n" using pos by simp
  have "align_unsigned x n = x + (n - x mod n)"
    using False by (simp add: align_unsigned_def)
  moreover have s: "unat (n - x mod n) = unat n - unat x mod unat n"
    using lt by (simp add: unat_sub word_le_nat_alt unat_mod)
  moreover have "unat x + (unat n - unat x mod unat n) < 2 ^ 32"
    using assms(2) nz lt by simp
  then have "unat (x + (n - x mod n)) = unat x + unat (n - x mod n)"
    by (simp add: unat_add_lem [THEN iffD1] s)
  ultimately show ?thesis using nz lt by (simp add: s)
qed

text \<open>
  With both kernels present, the size \<^verbatim>\<open>get_tmp_size\<close> returns for \<open>[left, right)\<close>, in
  bytes, covers the floats up to the right bound that \<^verbatim>\<open>process\<close> passes to the kernels
  for the same range, provided rounding \<open>right\<close> up does not wrap.
\<close>

theorem get_tmp_size_covers_window:
  assumes "m_func f \<noteq> None" and "m_f16c f \<noteq> None" and "pixel_align_of E f \<noteq> 0"
    and "left \<le> right" and "unat right + unat (pixel_align_of E f) \<le> 2 ^ 32"
  shows "\<exists>n. get_tmp_size E f left right = Inr n \<and>
           4 * unat (w_right (tile_window (pixel_align_of E f) left right)) \<le> unat n"
proof -
  let ?k = "pixel_align_of E f"
  let ?a = "align_unsigned right ?k" and ?m = "mod_unsigned left ?k"
  have "0 < unat ?k"
    using assms(3) by (simp add: unat_gt_0)
  then have "unat right mod unat ?k < unat ?k"
    by simp
  then have a: "unat right \<le> unat ?a"
    unfolding unat_align_unsigned [OF assms(3,5)] by (simp split: if_splits) linarith
  have m: "unat ?m \<le> unat left" "unat left \<le> unat right"
    using assms(4) by (simp_all add: unat_mod_unsigned word_le_nat_alt)
  have ma: "?m \<le> ?a" "?m \<le> right"
    using a m by (simp_all add: word_le_nat_alt)
  have d: "unat (?a - ?m) = unat ?a - unat ?m" "unat (right - ?m) = unat right - unat ?m"
    using ma by (simp_all add: unat_sub)
  have lt: "unat (?a - ?m) < 2 ^ 32"
    using unsigned_less [of "?a - ?m", where 'a = nat] by simp
  then have "unat (ucast (?a - ?m) :: 64 word) = unat (?a - ?m)"
    by (simp add: unsigned_ucast_eq take_bit_nat_eq_self)
  then have n: "unat (ucast (?a - ?m) * (4 :: 64 word)) = 4 * unat (?a - ?m)"
    using lt by (simp add: unat_word_ariths)
  have "get_tmp_size E f left right = Inr (ucast (?a - ?m) * 4)"
    using assms(1-3) by (simp add: get_tmp_size_def Let_def)
  moreover have "4 * unat (w_right (tile_window ?k left right)) \<le> unat (ucast (?a - ?m) * (4 :: 64 word))"
    using a by (simp add: n d tile_window_def Let_def)
  ultimately show ?thesis by blast
qed

theorem get_tmp_size_covers_window_witness:
  "get_tmp_size exact_env word_half_filter 3 70 = Inr 320 \<and>
   w_right (tile_window (pixel_align_of exact_env word_half_filter) 3 70) = 70 \<and>
   (\<exists>n. get_tmp_size exact_env word_half_filter 3 70 = Inr n \<and>
        4 * unat (w_right (tile_window (pixel_align_of exact_env word_half_filter) 3 70)) \<le> unat n)"
proof -
  have k: "pixel_align_of exact_env word_half_filter = 16"
    by (simp add: pixel_align_of_def exact_env_def word_half_filter_def)
  have both: "m_func word_half_filter = Some IntegerToFloatU16" "m_f16c word_half_filter = Some FloatToHalfN"
    by (simp_all add: word_half_filter_def)
  have g: "get_tmp_size exact_env word_half_filter 3 70 = Inr 320"
    by (simp add: get_tmp_size_def both k mod_unsigned_def align_unsigned_def)
  have w: "w_right (tile_window (pixel_align_of exact_env word_half_filter) 3 70) = 70"
    by (simp add: k tile_window_def mod_unsigned_def)
  have "m_func word_half_filter \<noteq> None" "m_f16c word_half_filter \<noteq> None"
    "pixel_align_of exact_env word_half_filter \<noteq> 0" "(3 :: 32 word) \<le> 70"
    "unat (70 :: 32 word) + unat (pixel_align_of exact_env word_half_filter) \<le> 2 ^ 32"
    by (simp_all add: k both)
  from get_tmp_size_covers_window [OF this] g w
  show ?thesis
    by blast
qed

subsection \<open>The filters the factory makes\<close>

text \<open>
  A filter from the factory has the integer-to-float kernel exactly when the input type
  is an integer type, and a half-float kernel exactly when one of the two types is
  \<^verbatim>\<open>HALF\<close>; it has neither exactly when both types are \<^verbatim>\<open>FLOAT\<close>.
\<close>

theorem create_kernels:
  assumes "create_convert_to_float E width height pixel_in pixel_out cpu = Inr f"
  shows "(m_func f = None \<longleftrightarrow> type pixel_in = HALF \<or> type pixel_in = FLOAT) \<and>
         (m_f16c f = None \<longleftrightarrow> type pixel_in \<noteq> HALF \<and> type pixel_out \<noteq> HALF) \<and>
         (m_func f = None \<and> m_f16c f = None \<longleftrightarrow> type pixel_in = FLOAT \<and> type pixel_out = FLOAT)"
  using assms
  by (cases "type pixel_in"; cases "type pixel_out")
     (auto simp: create_convert_to_float_def select_depth_convert_func_def new_ConvertToFloat_def Let_def
        split: if_splits)

theorem create_kernels_witness:
  "create_convert_to_float exact_env 4 1 word_format half_format () = Inr word_half_filter \<and>
   m_func word_half_filter \<noteq> None \<and> m_f16c word_half_filter \<noteq> None \<and>
   create_convert_to_float exact_env 4 1 byte_format float_format () = Inr byte_filter \<and>
   m_func byte_filter \<noteq> None \<and> m_f16c byte_filter = None"
proof -
  have c1: "create_convert_to_float exact_env 4 1 word_format half_format () = Inr word_half_filter"
    and c2: "create_convert_to_float exact_env 4 1 byte_format float_format () = Inr byte_filter"
    by (simp_all add: create_convert_to_float_def select_depth_convert_func_def new_ConvertToFloat_def
        byte_format_def word_format_def half_format_def float_format_def byte_filter_def
        word_half_filter_def exact_env_def)
  from create_kernels [OF c1] create_kernels [OF c2] c1 c2 show ?thesis
    by (simp add: byte_format_def word_format_def half_format_def float_format_def)
qed

text \<open>
  The factory throws the internal error exactly when the two formats are equal
  (\<^verbatim>\<open>operator==\<close>) or the output type is an integer type.
\<close>

theorem create_fails_iff:
  "isl (create_convert_to_float E width height pixel_in pixel_out cpu) \<longleftrightarrow>
     format_eq E pixel_in pixel_out \<or> type pixel_out = BYTE \<or> type pixel_out = WORD"
  by (rule create_guards)

theorem create_fails_iff_witness:
  "isl (create_convert_to_float exact_env 2 1 half_format word_format ()) \<and>
   isl (create_convert_to_float exact_env 2 1 float_format float_format ()) \<and>
   \<not> isl (create_convert_to_float exact_env 2 1 half_format float_format ())"
  using create_fails_iff [of exact_env 2 1 half_format word_format "()"]
    create_fails_iff [of exact_env 2 1 float_format float_format "()"]
    create_fails_iff [of exact_env 2 1 half_format float_format "()"]
  by (simp add: half_format_def word_format_def float_format_def exact_env_def)

subsection \<open>The values the integer kernels write\<close>

lemma elementwise_values:
  assumes ew: "elementwise a b g K" and run: "K src dst l r = Inr d'"
    and s0: "byte_off src = 0" and d0: "byte_off dst = 0"
  shows "(l = r \<or> unat r \<le> length (cells (target src))) \<and>
         elem_size d' = elem_size (target dst) \<and>
         length (cells d') = length (cells (target dst)) \<and>
         (\<forall>j < length (cells (target dst)).
            cells d' ! j = (if unat l \<le> j \<and> j < unat r then g (cells (target src) ! j)
                            else cells (target dst) ! j))"
proof -
  from ew run s0 d0 have le: "l \<le> r"
    and bounds: "l = r \<or> (unat r \<le> length (cells (target src)) \<and> unat r \<le> length (cells (target dst)))"
    and rep: "replaced g (target src) (unat l) (target dst) (unat l) (unat r - unat l) d'"
    unfolding elementwise_def by auto
  from le have n: "unat l + (unat r - unat l) = unat r" and LR: "unat l \<le> unat r"
    by (simp_all add: word_le_nat_alt)
  have b: "unat r - unat l = 0 \<or>
      (unat l + (unat r - unat l) \<le> length (cells (target src)) \<and>
       unat l + (unat r - unat l) \<le> length (cells (target dst)))"
    using bounds n by (auto simp: word_unat_eq_iff)
  from replaced_same_outside [OF rep b]
  have out: "same_outside (unat l) (unat r) (target dst) d'"
    by (simp add: n)
  have inside: "cells d' ! j = g (cells (target src) ! j)" if "unat l \<le> j" "j < unat r" for j
  proof -
    from that b have bb: "unat l + (unat r - unat l) \<le> length (cells (target src))"
      "unat l + (unat r - unat l) \<le> length (cells (target dst))"
      by auto
    from that have "j - unat l < unat r - unat l" by simp
    from replaced_nth [OF rep bb this] that show ?thesis by simp
  qed
  show ?thesis
    using out inside bounds by (auto simp: same_outside_def)
qed

lemma float_cells_nth:
  assumes "elem_size d = 4"
  obtains zs where "d = FloatLine zs" and "cells d = map SFloat zs"
  using assms by (cases d) auto

text \<open>
  With the floating-point operations as parameters: a returning call of an
  integer-to-float kernel writes, for every index \<open>j\<close> of \<open>[left, right)\<close>, the value
  \<open>float_add (float_mul (float_of_uint c) scale) offset\<close> of the source code \<open>c\<close> at
  \<open>j\<close>, and leaves the other elements as they were. The constructor sets \<open>m_scale\<close> to
  \<open>float(1.0 / range)\<close> and \<open>m_offset\<close> to \<open>float(-offset * (1.0 / range))\<close>, where
  \<open>range\<close> and \<open>offset\<close> are \<open>integer_range\<close> and \<open>integer_offset\<close> of the input
  format for an integer input type, and 1 and 0 otherwise.
\<close>

theorem integer_to_float_values:
  "(integer_to_float_uint8 E \<lparr>target = ByteLine xs, byte_off = 0\<rparr>
        \<lparr>target = FloatLine ys, byte_off = 0\<rparr> scale offset l r = Inr d' \<longrightarrow>
      (\<exists>zs. d' = FloatLine zs \<and> length zs = length ys \<and>
         (\<forall>j < length ys.
            zs ! j = (if unat l \<le> j \<and> j < unat r
                      then float_add E (float_mul E (float_of_uint E (unat (xs ! j))) scale) offset
                      else ys ! j)))) \<and>
   (integer_to_float_uint16 E \<lparr>target = WordLine ws, byte_off = 0\<rparr>
        \<lparr>target = FloatLine ys, byte_off = 0\<rparr> scale offset l r = Inr d'' \<longrightarrow>
      (\<exists>zs. d'' = FloatLine zs \<and> length zs = length ys \<and>
         (\<forall>j < length ys.
            zs ! j = (if unat l \<le> j \<and> j < unat r
                      then float_add E (float_mul E (float_of_uint E (unat (ws ! j))) scale) offset
                      else ys ! j)))) \<and>
   (new_ConvertToFloat E func f16c width height pixel_in pixel_out = Inr f \<longrightarrow>
      m_scale f =
        float_of_double E (double_div E (double_one E) (double_of_int32 E
          (if type pixel_in = BYTE \<or> type pixel_in = WORD
           then integer_range E (depth pixel_in) (fullrange pixel_in) (chroma pixel_in) else 1))) \<and>
      m_offset f =
        float_of_double E (double_mul E
          (double_of_int32 E
             (- (if type pixel_in = BYTE \<or> type pixel_in = WORD
                 then integer_offset E (depth pixel_in) (fullrange pixel_in) (chroma pixel_in) else 0)))
          (double_div E (double_one E) (double_of_int32 E
             (if type pixel_in = BYTE \<or> type pixel_in = WORD
              then integer_range E (depth pixel_in) (fullrange pixel_in) (chroma pixel_in) else 1)))))"
proof (intro conjI impI)
  assume run: "integer_to_float_uint8 E \<lparr>target = ByteLine xs, byte_off = 0\<rparr>
        \<lparr>target = FloatLine ys, byte_off = 0\<rparr> scale offset l r = Inr d'"
  from elementwise_values [OF elementwise_uint8 run]
  have b: "l = r \<or> unat r \<le> length xs" and e: "elem_size d' = 4"
    and len: "length (cells d') = length ys"
    and v: "\<And>j. j < length ys \<Longrightarrow> cells d' ! j =
        (if unat l \<le> j \<and> j < unat r then func_cell E scale offset (map SByte xs ! j) else map SFloat ys ! j)"
    by simp_all
  from e obtain zs where zs: "d' = FloatLine zs" "cells d' = map SFloat zs"
    by (rule float_cells_nth)
  have "zs ! j = (if unat l \<le> j \<and> j < unat r
          then float_add E (float_mul E (float_of_uint E (unat (xs ! j))) scale) offset else ys ! j)"
    if "j < length ys" for j
  proof -
    have "j < length zs" using that len zs by simp
    then have "SFloat (zs ! j) = cells d' ! j" by (simp add: zs)
    moreover have "j < length xs" if "unat l \<le> j" "j < unat r"
      using that b by (auto simp: word_unat_eq_iff)
    ultimately show ?thesis
      using v [OF that] that by (auto split: if_splits)
  qed
  with zs len show "\<exists>zs. d' = FloatLine zs \<and> length zs = length ys \<and>
         (\<forall>j < length ys.
            zs ! j = (if unat l \<le> j \<and> j < unat r
                      then float_add E (float_mul E (float_of_uint E (unat (xs ! j))) scale) offset
                      else ys ! j))"
    by auto
next
  assume run: "integer_to_float_uint16 E \<lparr>target = WordLine ws, byte_off = 0\<rparr>
        \<lparr>target = FloatLine ys, byte_off = 0\<rparr> scale offset l r = Inr d''"
  from elementwise_values [OF elementwise_uint16 run]
  have b: "l = r \<or> unat r \<le> length ws" and e: "elem_size d'' = 4"
    and len: "length (cells d'') = length ys"
    and v: "\<And>j. j < length ys \<Longrightarrow> cells d'' ! j =
        (if unat l \<le> j \<and> j < unat r then func_cell E scale offset (map SWord ws ! j) else map SFloat ys ! j)"
    by simp_all
  from e obtain zs where zs: "d'' = FloatLine zs" "cells d'' = map SFloat zs"
    by (rule float_cells_nth)
  have "zs ! j = (if unat l \<le> j \<and> j < unat r
          then float_add E (float_mul E (float_of_uint E (unat (ws ! j))) scale) offset else ys ! j)"
    if "j < length ys" for j
  proof -
    have "j < length zs" using that len zs by simp
    then have "SFloat (zs ! j) = cells d'' ! j" by (simp add: zs)
    moreover have "j < length ws" if "unat l \<le> j" "j < unat r"
      using that b by (auto simp: word_unat_eq_iff)
    ultimately show ?thesis
      using v [OF that] that by (auto split: if_splits)
  qed
  with zs len show "\<exists>zs. d'' = FloatLine zs \<and> length zs = length ys \<and>
         (\<forall>j < length ys.
            zs ! j = (if unat l \<le> j \<and> j < unat r
                      then float_add E (float_mul E (float_of_uint E (unat (ws ! j))) scale) offset
                      else ys ! j))"
    by auto
next
  assume c: "new_ConvertToFloat E func f16c width height pixel_in pixel_out = Inr f"
  then show "m_scale f =
        float_of_double E (double_div E (double_one E) (double_of_int32 E
          (if type pixel_in = BYTE \<or> type pixel_in = WORD
           then integer_range E (depth pixel_in) (fullrange pixel_in) (chroma pixel_in) else 1)))"
    by (auto simp: new_ConvertToFloat_def Let_def split: if_splits)
  from c show "m_offset f =
        float_of_double E (double_mul E
          (double_of_int32 E
             (- (if type pixel_in = BYTE \<or> type pixel_in = WORD
                 then integer_offset E (depth pixel_in) (fullrange pixel_in) (chroma pixel_in) else 0)))
          (double_div E (double_one E) (double_of_int32 E
             (if type pixel_in = BYTE \<or> type pixel_in = WORD
              then integer_range E (depth pixel_in) (fullrange pixel_in) (chroma pixel_in) else 1))))"
    by (auto simp: new_ConvertToFloat_def Let_def split: if_splits)
qed


theorem integer_to_float_values_witness:
  "integer_to_float_uint8 exact_env \<lparr>target = ByteLine [0, 85, 170, 255], byte_off = 0\<rparr>
       \<lparr>target = FloatLine [9, 9, 9, 9], byte_off = 0\<rparr> (1 / 255) 0 0 4 =
     Inr (FloatLine [0, 1 / 3, 2 / 3, 1]) \<and>
   integer_to_float_uint16 exact_env \<lparr>target = WordLine [0, 65535], byte_off = 0\<rparr>
       \<lparr>target = FloatLine [9, 9], byte_off = 0\<rparr> (1 / 65535) 0 0 2 =
     Inr (FloatLine [0, 1]) \<and>
   new_ConvertToFloat exact_env (Some IntegerToFloatU8) None 4 1 byte_format float_format = Inr byte_filter \<and>
   m_scale byte_filter = 1 / 255 \<and> m_offset byte_filter = 0 \<and>
   (\<exists>zs. FloatLine [0, 1 / 3, 2 / 3, 1 :: real] = FloatLine zs \<and> length zs = 4 \<and> zs ! 3 = 1) \<and>
   (\<exists>zs. FloatLine [0, 1 :: real] = FloatLine zs \<and> length zs = 2 \<and> zs ! 1 = 1)"
proof -
  have k8: "integer_to_float_uint8 exact_env \<lparr>target = ByteLine [0, 85, 170, 255], byte_off = 0\<rparr>
       \<lparr>target = FloatLine [9, 9, 9, 9], byte_off = 0\<rparr> (1 / 255) 0 0 4 =
     Inr (FloatLine [0, 1 / 3, 2 / 3, 1])"
    by (simp add: eval_kernels exact_env_def)
  have k16: "integer_to_float_uint16 exact_env \<lparr>target = WordLine [0, 65535], byte_off = 0\<rparr>
       \<lparr>target = FloatLine [9, 9], byte_off = 0\<rparr> (1 / 65535) 0 0 2 =
     Inr (FloatLine [0, 1])"
    by (simp add: eval_kernels exact_env_def)
  have c: "new_ConvertToFloat exact_env (Some IntegerToFloatU8) None 4 1 byte_format float_format = Inr byte_filter"
    by (simp add: new_ConvertToFloat_def byte_format_def float_format_def byte_filter_def exact_env_def)
  note t = integer_to_float_values [where E = exact_env and xs = "[0, 85, 170, 255]" and ys = "[9, 9, 9, 9]"
      and scale = "1 / 255" and offset = 0 and l = 0 and r = 4 and d' = "FloatLine [0, 1 / 3, 2 / 3, 1]"
      and func = "Some IntegerToFloatU8" and f16c = None and width = 4 and height = 1
      and pixel_in = byte_format and pixel_out = float_format and f = byte_filter]
  note u = integer_to_float_values [where E = exact_env and ws = "[0, 65535]" and ys = "[9, 9]"
      and scale = "1 / 65535" and offset = 0 and l = 0 and r = 2 and d'' = "FloatLine [0, 1]"]
  from t [THEN conjunct1, rule_format, OF k8]
  obtain zs where z: "FloatLine [0, 1 / 3, 2 / 3, 1 :: real] = FloatLine zs" "length zs = 4" "zs ! 3 = 1"
    by auto
  from u [THEN conjunct2, THEN conjunct1, rule_format, OF k16]
  obtain zs' where z': "FloatLine [0, 1 :: real] = FloatLine zs'" "length zs' = 2" "zs' ! 1 = 1"
    by auto
  from t [THEN conjunct2, THEN conjunct2, rule_format, OF c]
  have so: "m_scale byte_filter = 1 / 255" "m_offset byte_filter = 0"
    by (simp_all add: byte_format_def exact_env_def)
  from k8 k16 c so z z' show ?thesis
    by blast
qed

end
